theory Spec2Isabelle
  imports Main "HOL-Library.Sublist"
begin

section \<open>Values of the host language\<close>

text \<open>
  Strings are sequences of code units, modelled as \<open>string\<close>. Numbers are modelled
  as integers (the line, column and frame counts that reach this code); an exception that
  the source lets propagate is a value \<open>Inl e\<close> of a sum type.
\<close>

datatype error = TypeError | Thrown string

section \<open>EventFilter: \<open>doesIncludeSubURLs\<close> and \<open>shouldCaptureError\<close> (utils.ts)\<close>

text \<open>
  \<open>SubURL = string | RegExp\<close>. A pattern entry is represented by what the source asks
  of it, whether \<open>url.match(subURL)\<close> is non-null.
\<close>

datatype SubURL = Literal string | Pattern "string \<Rightarrow> bool"

text \<open>\<open>url.includes(sub)\<close>: \<open>sub\<close> occurs in \<open>url\<close> as a contiguous run.\<close>

fun str_includes :: "string \<Rightarrow> string \<Rightarrow> bool" where
  "str_includes [] sub = (sub = [])"
| "str_includes (c # cs) sub = (prefix sub (c # cs) \<or> str_includes cs sub)"

text \<open>The callback of \<open>subURLs.some\<close>.\<close>

fun matchesSubURL :: "string \<Rightarrow> SubURL \<Rightarrow> bool" where
  "matchesSubURL url (Pattern re) = re url"
| "matchesSubURL url (Literal s) = str_includes url s"

text \<open>Result \<open>boolean | null\<close>: \<open>None\<close> is \<open>null\<close>.\<close>

definition doesIncludeSubURLs :: "string \<Rightarrow> SubURL list \<Rightarrow> bool option" where
  "doesIncludeSubURLs url subURLs =
     (if length subURLs = 0 then None
      else Some (list_ex (matchesSubURL url) subURLs))"

text \<open>Truthiness of a \<open>boolean | null\<close>.\<close>

fun truthy_bool_opt :: "bool option \<Rightarrow> bool" where
  "truthy_bool_opt None = False"
| "truthy_bool_opt (Some b) = b"

text \<open>
  The optional custom filter is a host-language function, which may throw; the event
  argument is whatever the caller passes (the dispatcher passes the raw error).
\<close>

type_synonym 'e CustomEventFilterFunction = "'e \<Rightarrow> string \<Rightarrow> error + bool"

definition shouldCaptureError ::
  "'e \<Rightarrow> string \<Rightarrow> SubURL list \<Rightarrow> SubURL list \<Rightarrow> 'e CustomEventFilterFunction option
     \<Rightarrow> error + bool" where
  "shouldCaptureError event url allowUrls denyUrls customEventFilter =
     (if length denyUrls > 0 \<and> truthy_bool_opt (doesIncludeSubURLs url denyUrls) then Inr False
      else if length allowUrls > 0 \<and> \<not> truthy_bool_opt (doesIncludeSubURLs url allowUrls)
        then Inr True
      else case customEventFilter of
             Some f \<Rightarrow> f event url
           | None \<Rightarrow> Inr True)"

section \<open>Data model: stack frames, exceptions, events\<close>

text \<open>
  The primitive values that reach the positional arguments (\<open>url\<close>, \<open>line\<close>,
  \<open>column\<close>, all typed \<open>any\<close>): \<open>undefined\<close>, \<open>null\<close>, booleans, integral
  numbers and strings. The other primitives (symbols, bigints, the remaining numbers) are
  introduced with the rejection reasons; as positional arguments they are outside the
  model.
\<close>

datatype primitive = PUndefined | PNull | PBool bool | PNum int | PStr string

text \<open>
  A slot typed \<open>string\<close> that at run time holds \<open>undefined\<close>, a string, or an object.
  For an object the model keeps what \<open>extractMessage\<close> reads of it: \<open>MsgObject (Some s)\<close>
  when \<open>message.error\<close> is truthy and \<open>typeof message.error.message === 'string'\<close>
  with that string \<open>s\<close>, \<open>MsgObject None\<close> otherwise.
\<close>

datatype message_value = MsgUndefined | MsgString string | MsgObject "string option"

text \<open>\<open>StackFrame\<close>, \<open>Exception\<close> and \<open>Event\<close> of @sentry/types, with the fields this
  code reads or writes. \<open>None\<close> is an absent (undefined) property.\<close>

record StackFrame =
  filename :: "string option"
  func :: "string option"
  lineno :: primitive
  colno :: primitive
  in_app :: "bool option"

record Stacktrace =
  frames :: "StackFrame list option"

record Exception =
  etype :: "string option"
  evalue :: message_value
  stacktrace :: "Stacktrace option"

record ExceptionValues =
  exc_values :: "Exception list option"

record Event =
  exception :: "ExceptionValues option"
  message :: "string option"
  level :: "string option"

section \<open>StackFrameExtractor and the native-error classifier (utils.ts)\<close>

text \<open>
  A throwable as these functions read it: \<open>Error & { framesToPop?: number; stacktrace?: string }\<close>.
  The argument itself may be \<open>undefined\<close> (\<open>None\<close>): the source guards some reads with
  \<open>ex &&\<close> and not others.
\<close>

record Throwable =
  ex_name :: "string option"
  ex_message :: message_value
  ex_stack :: "string option"
  ex_stacktrace :: "string option"
  ex_framesToPop :: "int option"

text \<open>The stack-parser primitive \<open>(stack, skipFirst) => StackFrame[]\<close>; it may throw.\<close>

type_synonym StackParser = "string \<Rightarrow> int \<Rightarrow> error + StackFrame list"

text \<open>Truthiness of a string-or-object slot: \<open>undefined\<close> and the empty string are falsy.\<close>

fun truthy_message :: "message_value \<Rightarrow> bool" where
  "truthy_message MsgUndefined = False"
| "truthy_message (MsgString s) = (s \<noteq> [])"
| "truthy_message (MsgObject e) = True"

definition extractMessage :: "Throwable option \<Rightarrow> message_value" where
  "extractMessage ex =
     (let message = (case ex of None \<Rightarrow> MsgUndefined | Some e \<Rightarrow> ex_message e) in
      if \<not> truthy_message message then MsgString ''No error message''
      else case message of
             MsgObject (Some s) \<Rightarrow> MsgString s
           | _ \<Rightarrow> message)"

text \<open>
  \<open>reactMinifiedRegexp\<close> is imported from \<open>./constants\<close>; the parameter
  \<open>reactMinified\<close> is \<open>reactMinifiedRegexp.test\<close> on the value of \<open>ex.message\<close>.
\<close>

definition getPopSize :: "(message_value \<Rightarrow> bool) \<Rightarrow> Throwable option \<Rightarrow> int" where
  "getPopSize reactMinified ex =
     (case ex of
        None \<Rightarrow> 0
      | Some e \<Rightarrow>
          (case ex_framesToPop e of
             Some n \<Rightarrow> n
           | None \<Rightarrow> if reactMinified (ex_message e) then 1 else 0))"

text \<open>\<open>a || b\<close> on optional strings: the first operand when it is a non-empty string.\<close>

fun or_string :: "string option \<Rightarrow> string \<Rightarrow> string" where
  "or_string None d = d"
| "or_string (Some s) d = (if s \<noteq> [] then s else d)"

text \<open>
  \<open>ex.stacktrace\<close> is read unguarded, so an \<open>undefined\<close> throwable raises a TypeError
  before the \<open>try\<close>; whatever the parser throws inside the \<open>try\<close> is swallowed.
\<close>

definition parseStackFrames ::
  "(message_value \<Rightarrow> bool) \<Rightarrow> StackParser \<Rightarrow> Throwable option \<Rightarrow> error + StackFrame list" where
  "parseStackFrames reactMinified stackParser ex =
     (case ex of
        None \<Rightarrow> Inl TypeError
      | Some e \<Rightarrow>
          (let stacktrace = or_string (ex_stacktrace e) (or_string (ex_stack e) []);
               popSize = getPopSize reactMinified ex
           in case stackParser stacktrace popSize of
                Inr fs \<Rightarrow> Inr fs
              | Inl err \<Rightarrow> Inr []))"

definition exceptionFromError ::
  "(message_value \<Rightarrow> bool) \<Rightarrow> StackParser \<Rightarrow> Throwable option \<Rightarrow> error + Exception" where
  "exceptionFromError reactMinified stackParser ex =
     (case parseStackFrames reactMinified stackParser ex of
        Inl err \<Rightarrow> Inl err
      | Inr fs \<Rightarrow>
          (let exception0 = \<lparr> etype = (case ex of None \<Rightarrow> None | Some e \<Rightarrow> ex_name e),
                                evalue = extractMessage ex,
                                stacktrace = None \<rparr>;
               exception1 = (if length fs \<noteq> 0
                             then exception0 \<lparr> stacktrace := Some \<lparr> frames = Some fs \<rparr> \<rparr>
                             else exception0);
               exception2 = (if etype exception1 = None \<and> evalue exception1 = MsgString []
                             then exception1 \<lparr> evalue := MsgString ''Unrecoverable error caught'' \<rparr>
                             else exception1)
           in Inr exception2))"

definition eventFromError ::
  "(message_value \<Rightarrow> bool) \<Rightarrow> StackParser \<Rightarrow> Throwable option \<Rightarrow> error + Event" where
  "eventFromError reactMinified stackParser ex =
     (case exceptionFromError reactMinified stackParser ex of
        Inl err \<Rightarrow> Inl err
      | Inr exc \<Rightarrow>
          Inr \<lparr> exception = Some \<lparr> exc_values = Some [exc] \<rparr>, message = None, level = None \<rparr>)"

section \<open>InitialFrameEnhancer (utils.ts)\<close>

text \<open>
  \<open>ToString\<close> of a primitive, as \<open>parseInt\<close> applies it to its input. A safe
  integer (magnitude at most \<open>2^53 - 1\<close>) prints as its decimal numeral, as here. Beyond
  that range the host prints the shortest digits that read back as the same number, in
  exponent form from \<open>10^21\<close> on; that text too begins with a digit, or with a sign and
  a digit, so \<open>parseInt\<close> is \<open>NaN\<close> for neither, and the \<open>NaN\<close> test is all the
  enhancer takes from the conversion.
\<close>

definition digit_char :: "nat \<Rightarrow> char" where
  "digit_char d = ''0123456789'' ! d"

fun show_nat :: "nat \<Rightarrow> string" where
  "show_nat n = (if n < 10 then [digit_char n] else show_nat (n div 10) @ [digit_char (n mod 10)])"

declare show_nat.simps [simp del]

definition show_int :: "int \<Rightarrow> string" where
  "show_int i = (if i < 0 then CHR ''-'' # show_nat (nat (- i)) else show_nat (nat i))"

fun ToString :: "primitive \<Rightarrow> string" where
  "ToString PUndefined = ''undefined''"
| "ToString PNull = ''null''"
| "ToString (PBool b) = (if b then ''true'' else ''false'')"
| "ToString (PNum n) = show_int n"
| "ToString (PStr s) = s"

text \<open>
  \<open>parseInt(input, 10)\<close>: leading white space and line terminators are trimmed, one sign
  is read, then the longest run of decimal digits; no digit at all gives \<open>NaN\<close>
  (\<open>None\<close>). With radix 10 no \<open>0x\<close> prefix is stripped. Among the code units of
  \<open>string\<close> the white space is TAB, LF, VT, FF, CR, SP and NBSP.
\<close>

definition isWhiteSpace :: "char \<Rightarrow> bool" where
  "isWhiteSpace c = (c \<in> set [CHR 0x09, CHR 0x0A, CHR 0x0B, CHR 0x0C, CHR 0x0D, CHR 0x20, CHR 0xA0])"

definition isDigit :: "char \<Rightarrow> bool" where
  "isDigit c = (c \<in> set ''0123456789'')"

definition digit_value :: "char \<Rightarrow> int" where
  "digit_value c = int (of_char c) - 48"

definition parseInt10 :: "primitive \<Rightarrow> int option" where
  "parseInt10 input =
     (let s = dropWhile isWhiteSpace (ToString input);
          sign = (case s of c # r \<Rightarrow> if c = CHR ''-'' then - 1 else 1 | [] \<Rightarrow> (1::int));
          s' = (case s of c # r \<Rightarrow> if c = CHR ''-'' \<or> c = CHR ''+'' then r else s | [] \<Rightarrow> s);
          z = takeWhile isDigit s'
      in if z = [] then None
         else Some (sign * foldl (\<lambda>a c. 10 * a + digit_value c) 0 z))"

text \<open>\<open>isNaN\<close> of a \<open>parseInt\<close> result.\<close>

definition isNaN :: "int option \<Rightarrow> bool" where
  "isNaN r = (r = None)"

text \<open>
  \<open>enhanceEventWithInitialFrame\<close> mutates the event in place and returns it; the model
  returns the updated event. \<open>getLocationHref\<close> belongs to @sentry/utils, its result is
  the parameter \<open>locationHref\<close>. Every \<open>x = x || default\<close> of the source is one
  \<open>case\<close> here; \<open>ev[0] = ev[0] || {}\<close> writes index 0 of the list, which extends an
  empty list to one element.
\<close>

definition enhanceEventWithInitialFrame ::
  "string \<Rightarrow> Event \<Rightarrow> primitive \<Rightarrow> primitive \<Rightarrow> primitive \<Rightarrow> Event" where
  "enhanceEventWithInitialFrame locationHref event url line column =
     (let e = (case exception event of Some x \<Rightarrow> x | None \<Rightarrow> \<lparr> exc_values = None \<rparr>);
          ev = (case exc_values e of Some vs \<Rightarrow> vs | None \<Rightarrow> []);
          ev0 = (case ev of x # xs \<Rightarrow> x
                 | [] \<Rightarrow> \<lparr> etype = None, evalue = MsgUndefined, stacktrace = None \<rparr>);
          ev0s = (case stacktrace ev0 of Some st \<Rightarrow> st | None \<Rightarrow> \<lparr> frames = None \<rparr>);
          ev0sf = (case frames ev0s of Some fs \<Rightarrow> fs | None \<Rightarrow> []);
          colno' = (if isNaN (parseInt10 column) then PUndefined else column);
          lineno' = (if isNaN (parseInt10 line) then PUndefined else line);
          filename' = (case url of
                         PStr s \<Rightarrow> if length s > 0 then s else locationHref
                       | _ \<Rightarrow> locationHref);
          ev0sf' = (if length ev0sf = 0
                    then ev0sf @ [\<lparr> filename = Some filename', func = Some ''?'',
                                     lineno = lineno', colno = colno', in_app = Some True \<rparr>]
                    else ev0sf)
      in event \<lparr> exception :=
           Some (e \<lparr> exc_values :=
             Some (ev0 \<lparr> stacktrace := Some (ev0s \<lparr> frames := Some ev0sf' \<rparr>) \<rparr> # drop 1 ev) \<rparr>) \<rparr>)"

text \<open>
  The read \<open>event.exception.values[0].stacktrace.frames\<close>, \<open>undefined\<close> (\<open>None\<close>)
  when any step of the path is absent (the inner \<open>try\<close> of \<open>getEventFilterUrl\<close>).
\<close>

definition eventFrames :: "Event \<Rightarrow> StackFrame list option" where
  "eventFrames event =
     (case exception event of
        None \<Rightarrow> None
      | Some e \<Rightarrow>
          (case exc_values e of
             None \<Rightarrow> None
           | Some [] \<Rightarrow> None
           | Some (ev0 # rest) \<Rightarrow>
               (case stacktrace ev0 of
                  None \<Rightarrow> None
                | Some st \<Rightarrow> frames st)))"

section \<open>Legacy onerror message parsing (utils.ts)\<close>

text \<open>
  A backtracking matcher for the regular-expression constructs that \<open>ERROR_TYPES_RE\<close>
  is written with: characters, a class, the dot, sequence, ordered alternation, greedy
  star, capture groups and the two anchors. Alternatives are tried left to right and a
  star takes as many iterations as it can before giving one back, as the host engine
  does; an optional item \<open>r?\<close> is \<open>Alt r Eps\<close>.
\<close>

datatype regex =
    Eps
  | Chr char
  | OneOf "char list"
  | Dot
  | Bol
  | Eol
  | Seq regex regex
  | Alt regex regex
  | Star regex
  | Group nat regex

text \<open>
  The matcher state: the index reached, the rest of the input from there, the captures
  set so far.
\<close>

type_synonym captures = "nat \<Rightarrow> string option"
type_synonym mstate = "nat \<times> string \<times> captures"

text \<open>
  Case folding under the \<open>i\<close> flag. Every character of the pattern is ASCII, and the
  engine never folds a code unit at or above 128 onto one below, so folding the ASCII letters
  decides the same comparisons.
\<close>

definition canonicalize :: "bool \<Rightarrow> char \<Rightarrow> char" where
  "canonicalize ignoreCase c =
     (if ignoreCase \<and> (97::nat) \<le> of_char c \<and> of_char c \<le> (122::nat)
      then char_of (of_char c - (32::nat)) else c)"

text \<open>The dot matches every code unit but a line terminator (LF and CR among these).\<close>

definition isLineTerminator :: "char \<Rightarrow> bool" where
  "isLineTerminator c = (c = CHR 0x0A \<or> c = CHR 0x0D)"

text \<open>
  Greedy iteration: one more round of the body first, the continuation otherwise. A round
  that consumes nothing is rejected, so the rest of the input bounds the number of rounds.
  Captures are not cleared between rounds; the pattern below has no group inside a star.
\<close>

fun star_iter ::
  "((mstate \<Rightarrow> captures option) \<Rightarrow> mstate \<Rightarrow> captures option)
     \<Rightarrow> (mstate \<Rightarrow> captures option) \<Rightarrow> nat \<Rightarrow> mstate \<Rightarrow> captures option" where
  "star_iter m k 0 st = k st"
| "star_iter m k (Suc n) st =
     (case m (\<lambda>st'. if fst st' = fst st then None else star_iter m k n st') st of
        Some c \<Rightarrow> Some c
      | None \<Rightarrow> k st)"

primrec rmatch ::
  "bool \<Rightarrow> regex \<Rightarrow> (mstate \<Rightarrow> captures option) \<Rightarrow> mstate \<Rightarrow> captures option" where
  "rmatch ic Eps k st = k st"
| "rmatch ic (Chr c) k st =
     (case st of (p, s, caps) \<Rightarrow>
        (case s of
           [] \<Rightarrow> None
         | x # xs \<Rightarrow> if canonicalize ic x = canonicalize ic c then k (Suc p, xs, caps) else None))"
| "rmatch ic (OneOf cs) k st =
     (case st of (p, s, caps) \<Rightarrow>
        (case s of
           [] \<Rightarrow> None
         | x # xs \<Rightarrow> if canonicalize ic x \<in> set (map (canonicalize ic) cs)
                     then k (Suc p, xs, caps) else None))"
| "rmatch ic Dot k st =
     (case st of (p, s, caps) \<Rightarrow>
        (case s of
           [] \<Rightarrow> None
         | x # xs \<Rightarrow> if isLineTerminator x then None else k (Suc p, xs, caps)))"
| "rmatch ic Bol k st = (case st of (p, s, caps) \<Rightarrow> if p = 0 then k st else None)"
| "rmatch ic Eol k st = (case st of (p, s, caps) \<Rightarrow> if s = [] then k st else None)"
| "rmatch ic (Seq a b) k st = rmatch ic a (rmatch ic b k) st"
| "rmatch ic (Alt a b) k st =
     (case rmatch ic a k st of Some c \<Rightarrow> Some c | None \<Rightarrow> rmatch ic b k st)"
| "rmatch ic (Star a) k st =
     (case st of (p, s, caps) \<Rightarrow> star_iter (rmatch ic a) k (length s) st)"
| "rmatch ic (Group i a) k st =
     (case st of (p, s, caps) \<Rightarrow>
        rmatch ic a (\<lambda>(p', s', caps'). k (p', s', caps'(i \<mapsto> take (p' - p) s))) st)"

text \<open>
  \<open>String.prototype.match\<close> with a regular expression that has no \<open>g\<close> flag: the
  first index, from 0 on, at which the expression matches; \<open>None\<close> is \<open>null\<close>.
\<close>

fun exec_from :: "bool \<Rightarrow> regex \<Rightarrow> nat \<Rightarrow> string \<Rightarrow> captures option" where
  "exec_from ic r p [] = rmatch ic r (\<lambda>(p', s', caps). Some caps) (p, [], Map.empty)"
| "exec_from ic r p (x # xs) =
     (case rmatch ic r (\<lambda>(p', s', caps). Some caps) (p, x # xs, Map.empty) of
        Some caps \<Rightarrow> Some caps
      | None \<Rightarrow> exec_from ic r (Suc p) xs)"

definition string_match :: "bool \<Rightarrow> regex \<Rightarrow> string \<Rightarrow> captures option" where
  "string_match ic r s = exec_from ic r 0 s"

text \<open>A literal run of characters, and the optional item.\<close>

definition lit :: "string \<Rightarrow> regex" where
  "lit s = foldr (\<lambda>c r. Seq (Chr c) r) s Eps"

definition opt :: "regex \<Rightarrow> regex" where
  "opt r = Alt r Eps"

text \<open>
  \<^verbatim>\<open>/^(?:[Uu]ncaught (?:exception: )?)?(?:((?:Eval|Internal|Range|Reference|Syntax|Type|URI|)Error): )?(.*)$/i\<close>
\<close>

definition ERROR_TYPES_RE :: regex where
  "ERROR_TYPES_RE =
     Seq Bol
    (Seq (opt (Seq (OneOf ''Uu'') (Seq (lit ''ncaught '') (opt (lit ''exception: '')))))
    (Seq (opt (Seq (Group 1
                      (Seq (Alt (lit ''Eval'') (Alt (lit ''Internal'') (Alt (lit ''Range'')
                           (Alt (lit ''Reference'') (Alt (lit ''Syntax'') (Alt (lit ''Type'')
                           (Alt (lit ''URI'') Eps)))))))
                           (lit ''Error'')))
                   (lit '': '')))
    (Seq (Group 2 (Star Dot)) Eol)))"

text \<open>
  The first argument of \<open>eventFromIncompleteOnError\<close>: a string, or an ErrorEvent, of
  which the function reads the \<open>message\<close>.
\<close>

datatype onerror_msg = MessageString string | MessageErrorEvent string

definition eventFromIncompleteOnError ::
  "string \<Rightarrow> onerror_msg \<Rightarrow> primitive \<Rightarrow> primitive \<Rightarrow> primitive \<Rightarrow> Event" where
  "eventFromIncompleteOnError locationHref msg url line column =
     (let message = (case msg of MessageErrorEvent m \<Rightarrow> m | MessageString m \<Rightarrow> m);
          groups = string_match True ERROR_TYPES_RE message;
          name = (case groups of Some g \<Rightarrow> g 1 | None \<Rightarrow> Some ''Error'');
          message' = (case groups of
                        Some g \<Rightarrow> (case g 2 of Some v \<Rightarrow> MsgString v | None \<Rightarrow> MsgUndefined)
                      | None \<Rightarrow> MsgString message);
          event = \<lparr> exception = Some \<lparr> exc_values =
                        Some [\<lparr> etype = name, evalue = message', stacktrace = None \<rparr>] \<rparr>,
                    message = None, level = None \<rparr>
      in enhanceEventWithInitialFrame locationHref event url line column)"

section \<open>CaptureDispatcher: the \<open>MFESentry\<close> class\<close>

text \<open>
  The primitives beyond those above: symbols (with their description, if any), bigints,
  and the numbers that are not safe integers: \<open>NaN\<close>, the two infinities, and any other
  finite number, given by mantissa and exponent as \<open>m * 2^e\<close>. Together with the type
  \<open>primitive\<close> they make up \<open>Primitive\<close> of @sentry/types, every value that is
  neither an object nor a function.
\<close>

datatype other_primitive =
    PSymbol "string option"
  | PBigInt int
  | PNaN
  | PInfinity
  | PNegInfinity
  | PFinite int int

datatype Primitive = Common primitive | Rare other_primitive

text \<open>
  Values the public entry points receive (\<open>error: any\<close>, \<open>e: any\<close>): a primitive, or
  an object. Of an object the model keeps whether \<open>typeof\<close> says \<open>function\<close>, the names
  of the constructors on its prototype chain (what \<open>instanceof\<close> asks) and the
  properties reachable by name, own or inherited. Accessors that throw are outside the
  model.
\<close>

datatype jstypeof = TypeofObject | TypeofFunction

datatype jsval = Primitive Primitive | Obj jstypeof "string list" "(string \<times> jsval) list"

abbreviation Prim :: "primitive \<Rightarrow> jsval" where
  "Prim p \<equiv> Primitive (Common p)"

text \<open>
  \<open>String(reason)\<close> on a primitive. A number that is a safe integer (magnitude at most
  \<open>2^53 - 1\<close>) prints as its decimal numeral. For every other finite number the host's
  \<open>Number::toString\<close> picks the shortest digits that read back as the same number and
  switches to exponent form from \<open>10^21\<close> on; that conversion is the parameter
  \<open>numberToString\<close>, applied to mantissa and exponent. A bigint prints all its digits,
  a symbol prints as \<open>Symbol(description)\<close>.
\<close>

definition isSafeInteger :: "int \<Rightarrow> bool" where
  "isSafeInteger n = (\<bar>n\<bar> \<le> 9007199254740991)"

fun StringOf :: "(int \<Rightarrow> int \<Rightarrow> string) \<Rightarrow> Primitive \<Rightarrow> string" where
  "StringOf numberToString (Common (PNum n)) =
     (if isSafeInteger n then show_int n else numberToString n 0)"
| "StringOf numberToString (Common p) = ToString p"
| "StringOf numberToString (Rare (PSymbol description)) =
     ''Symbol('' @ (case description of None \<Rightarrow> [] | Some d \<Rightarrow> d) @ '')''"
| "StringOf numberToString (Rare (PBigInt n)) = show_int n"
| "StringOf numberToString (Rare PNaN) = ''NaN''"
| "StringOf numberToString (Rare PInfinity) = ''Infinity''"
| "StringOf numberToString (Rare PNegInfinity) = ''-Infinity''"
| "StringOf numberToString (Rare (PFinite m e)) = numberToString m e"

text \<open>\<open>key in v\<close>: a TypeError on a primitive.\<close>

fun has_property :: "string \<Rightarrow> jsval \<Rightarrow> error + bool" where
  "has_property key (Primitive p) = Inl TypeError"
| "has_property key (Obj t cs ps) = Inr (map_of ps key \<noteq> None)"

text \<open>
  \<open>v.key\<close>: a TypeError on \<open>undefined\<close> and \<open>null\<close>; the other primitives have none
  of the properties this code reads.
\<close>

fun get_property :: "jsval \<Rightarrow> string \<Rightarrow> error + jsval" where
  "get_property (Primitive (Common PUndefined)) key = Inl TypeError"
| "get_property (Primitive (Common PNull)) key = Inl TypeError"
| "get_property (Primitive p) key = Inr (Prim PUndefined)"
| "get_property (Obj t cs ps) key =
     Inr (case map_of ps key of Some v \<Rightarrow> v | None \<Rightarrow> Prim PUndefined)"

fun instanceof :: "jsval \<Rightarrow> string \<Rightarrow> bool" where
  "instanceof (Primitive p) c = False"
| "instanceof (Obj t cs ps) c = (c \<in> set cs)"

text \<open>Truthiness: \<open>undefined\<close>, \<open>null\<close>, \<open>false\<close>, zero, \<open>NaN\<close> and the empty string
  are falsy.\<close>

fun truthy :: "jsval \<Rightarrow> bool" where
  "truthy (Primitive (Common PUndefined)) = False"
| "truthy (Primitive (Common PNull)) = False"
| "truthy (Primitive (Common (PBool b))) = b"
| "truthy (Primitive (Common (PNum n))) = (n \<noteq> 0)"
| "truthy (Primitive (Common (PStr s))) = (s \<noteq> [])"
| "truthy (Primitive (Rare (PSymbol description))) = True"
| "truthy (Primitive (Rare (PBigInt n))) = (n \<noteq> 0)"
| "truthy (Primitive (Rare PNaN)) = False"
| "truthy (Primitive (Rare PInfinity)) = True"
| "truthy (Primitive (Rare PNegInfinity)) = True"
| "truthy (Primitive (Rare (PFinite m e))) = (m \<noteq> 0)"
| "truthy (Obj t cs ps) = True"

text \<open>\<open>isPrimitive\<close> of @sentry/utils: \<open>null\<close>, or neither an object nor a function.\<close>

fun isPrimitive :: "jsval \<Rightarrow> bool" where
  "isPrimitive (Primitive p) = True"
| "isPrimitive (Obj t cs ps) = False"

text \<open>\<open>isNetworkError\<close> (utils.ts); the \<open>in\<close> test raises on a primitive.\<close>

definition isNetworkError :: "jsval \<Rightarrow> error + bool" where
  "isNetworkError error =
     (if instanceof error ''AxiosError'' then Inr True
      else case has_property ''name'' error of
             Inl err \<Rightarrow> Inl err
           | Inr present \<Rightarrow>
               if present \<and> get_property error ''name'' = Inr (Prim (PStr ''NetworkError''))
               then Inr True
               else Inr False)"

text \<open>
  The hub is an object of @sentry/browser; it is represented by the calls made on it, in
  order. \<open>hub.run(callback)\<close> calls the callback with the hub.
\<close>

record EventHint =
  originalException :: jsval

record Mechanism =
  handled :: bool
  mechanism_type :: string

datatype hub_call =
    CaptureException jsval "EventHint option"
  | CaptureEvent Event EventHint

text \<open>
  The static fields of \<open>MFESentry\<close> that the modelled methods read. The \<open>client\<close> field
  is read only for the options handed to \<open>eventFromUnknownInput\<close>.
\<close>

record MFESentry =
  hub :: "hub_call list option"
  appJSFile :: "string option"
  customEventFilter :: "Event CustomEventFilterFunction option"

text \<open>
  \<open>captureExecption(error, hint?, forceSendingNetworkError?)\<close>. The condition is
  evaluated left to right with short circuit, so \<open>isNetworkError\<close> runs only when the
  hub is set and the force flag is not truthy.
\<close>

definition captureExecption ::
  "MFESentry \<Rightarrow> jsval \<Rightarrow> EventHint option \<Rightarrow> bool option \<Rightarrow> error + MFESentry" where
  "captureExecption st error hint forceSendingNetworkError =
     (case hub st of
        None \<Rightarrow> Inr st
      | Some calls \<Rightarrow>
          if forceSendingNetworkError = Some True
          then Inr (st \<lparr> hub := Some (calls @ [CaptureException error hint]) \<rparr>)
          else case isNetworkError error of
                 Inl err \<Rightarrow> Inl err
               | Inr network \<Rightarrow>
                   if \<not> network
                   then Inr (st \<lparr> hub := Some (calls @ [CaptureException error hint]) \<rparr>)
                   else Inr st)"

text \<open>\<open>getLastValidUrl\<close> and \<open>getEventFilterUrl\<close> (utils.ts). The loop runs from the
  last frame to the first and returns at the first frame whose filename is neither marker,
  with \<open>frame.filename || null\<close>.\<close>

fun lastValidUrl_loop :: "StackFrame list \<Rightarrow> string option" where
  "lastValidUrl_loop [] = None"
| "lastValidUrl_loop (frame # before) =
     (if filename frame \<noteq> Some ''<anonymous>'' \<and> filename frame \<noteq> Some ''[native code]''
      then (case filename frame of
              Some s \<Rightarrow> if s \<noteq> [] then Some s else None
            | None \<Rightarrow> None)
      else lastValidUrl_loop before)"

definition getLastValidUrl :: "StackFrame list option \<Rightarrow> string option" where
  "getLastValidUrl fs = lastValidUrl_loop (rev (case fs of None \<Rightarrow> [] | Some l \<Rightarrow> l))"

definition getEventFilterUrl :: "Event \<Rightarrow> string option" where
  "getEventFilterUrl event = getLastValidUrl (eventFrames event)"

text \<open>
  \<open>addMechanismAndCapture\<close> (utils.ts). \<open>addExceptionMechanism\<close> belongs to
  @sentry/utils and is the parameter \<open>addExceptionMechanism\<close>; calling
  \<open>hub.captureEvent\<close> on an unset hub is a TypeError.
\<close>

definition addMechanismAndCapture ::
  "(Event \<Rightarrow> Mechanism \<Rightarrow> Event) \<Rightarrow> hub_call list option \<Rightarrow> jsval \<Rightarrow> Event \<Rightarrow> string
     \<Rightarrow> error + hub_call list option" where
  "addMechanismAndCapture addExceptionMechanism h error event mtype =
     (let event' = addExceptionMechanism event \<lparr> handled = False, mechanism_type = mtype \<rparr>
      in case h of
           None \<Rightarrow> Inl TypeError
         | Some calls \<Rightarrow>
             Inr (Some (calls @ [CaptureEvent event' \<lparr> originalException = error \<rparr>])))"

text \<open>\<open>_eventFromRejectionWithPrimitive(reason: Primitive)\<close>.\<close>

definition eventFromRejectionWithPrimitive ::
  "(int \<Rightarrow> int \<Rightarrow> string) \<Rightarrow> Primitive \<Rightarrow> Event" where
  "eventFromRejectionWithPrimitive numberToString reason =
     \<lparr> exception = Some \<lparr> exc_values =
         Some [\<lparr> etype = Some ''UnhandledRejection'',
                 evalue = MsgString (''Non-Error promise rejection captured with value: ''
                                      @ StringOf numberToString reason),
                 stacktrace = None \<rparr>] \<rparr>,
       message = None, level = None \<rparr>"

text \<open>
  \<open>handleUnhandledRejection\<close>, in three parts. First the \<open>try\<close> block that digs the
  reason out of the signal: any TypeError of \<open>in\<close> is swallowed and leaves \<open>error = e\<close>.
\<close>

definition rejectionReason :: "jsval \<Rightarrow> jsval" where
  "rejectionReason e =
     (case has_property ''reason'' e of
        Inl err \<Rightarrow> e
      | Inr True \<Rightarrow> (case get_property e ''reason'' of Inl err \<Rightarrow> e | Inr v \<Rightarrow> v)
      | Inr False \<Rightarrow>
          (case has_property ''detail'' e of
             Inl err \<Rightarrow> e
           | Inr False \<Rightarrow> e
           | Inr True \<Rightarrow>
               (case get_property e ''detail'' of
                  Inl err \<Rightarrow> e
                | Inr d \<Rightarrow>
                    (case has_property ''reason'' d of
                       Inl err \<Rightarrow> e
                     | Inr False \<Rightarrow> e
                     | Inr True \<Rightarrow>
                         (case get_property d ''reason'' of Inl err \<Rightarrow> e | Inr v \<Rightarrow> v)))))"

text \<open>The guard \<open>error && error.__sentry_own_request__\<close>.\<close>

definition isOwnRequest :: "jsval \<Rightarrow> bool" where
  "isOwnRequest error =
     (truthy error \<and>
      (case get_property error ''__sentry_own_request__'' of
         Inl err \<Rightarrow> False
       | Inr flag \<Rightarrow> truthy flag))"

text \<open>
  Then the event: the fixed form for a primitive reason, \<open>eventFromUnknownInput\<close>
  otherwise, and \<open>event.level = 'error'\<close>. \<open>eventFromUnknownInput\<close> classifies with
  predicates of @sentry/utils and reads the client of the hub it is given, which raises
  when the hub is unset; the parameter \<open>classify\<close> stands for the call
  \<open>eventFromUnknownInput(MFESentry.hub, stackParser, error, undefined, attachStacktrace, true)\<close>
  as a function of the hub and the reason that may raise.
\<close>

definition rejectionEvent ::
  "(int \<Rightarrow> int \<Rightarrow> string) \<Rightarrow> (hub_call list option \<Rightarrow> jsval \<Rightarrow> error + Event)
     \<Rightarrow> hub_call list option \<Rightarrow> jsval \<Rightarrow> error + Event" where
  "rejectionEvent numberToString classify h error =
     (case (case error of
              Primitive p \<Rightarrow> Inr (eventFromRejectionWithPrimitive numberToString p)
            | Obj t cs ps \<Rightarrow> classify h error) of
        Inl err \<Rightarrow> Inl err
      | Inr event \<Rightarrow> Inr (event \<lparr> level := Some ''error'' \<rparr>))"

text \<open>
  The result of the handler: how it ended (an exception that escapes it, or the value it
  returns, \<open>true\<close> or nothing), whether it had called \<open>e.stopImmediatePropagation()\<close>
  by then, and the class state afterwards.
\<close>

record RejectionResult =
  outcome :: "error + bool option"
  propagation_stopped :: bool
  sentry :: MFESentry

definition handleUnhandledRejection ::
  "(int \<Rightarrow> int \<Rightarrow> string) \<Rightarrow> (hub_call list option \<Rightarrow> jsval \<Rightarrow> error + Event)
     \<Rightarrow> (Event \<Rightarrow> Mechanism \<Rightarrow> Event) \<Rightarrow> MFESentry \<Rightarrow> jsval \<Rightarrow> RejectionResult" where
  "handleUnhandledRejection numberToString classify addExceptionMechanism st e =
     (let error = rejectionReason e;
          finish = (\<lambda>r. \<lparr> outcome = r, propagation_stopped = False, sentry = st \<rparr>)
      in if isOwnRequest error then finish (Inr (Some True))
         else
           case rejectionEvent numberToString classify (hub st) error of
             Inl err \<Rightarrow> finish (Inl err)
           | Inr event \<Rightarrow>
               (case getEventFilterUrl event of
                  None \<Rightarrow> finish (Inr None)
                | Some eventFilterURL \<Rightarrow>
                    if (case appJSFile st of
                          None \<Rightarrow> False
                        | Some app \<Rightarrow> app \<noteq> [] \<and> \<not> str_includes eventFilterURL app)
                    then finish (Inr None)
                    else
                      case (case customEventFilter st of
                              None \<Rightarrow> Inr True
                            | Some f \<Rightarrow> f event eventFilterURL) of
                        Inl err \<Rightarrow> finish (Inl err)
                      | Inr False \<Rightarrow> finish (Inr None)
                      | Inr True \<Rightarrow>
                          (case get_property e ''stopImmediatePropagation'' of
                             Inl err \<Rightarrow> finish (Inl err)
                           | Inr stop \<Rightarrow>
                               let stopped = (case stop of
                                                Obj TypeofFunction cs ps \<Rightarrow> True
                                              | _ \<Rightarrow> False)
                               in case addMechanismAndCapture addExceptionMechanism (hub st)
                                         error event ''onunhandledrejection'' of
                                    Inl err \<Rightarrow>
                                      \<lparr> outcome = Inl err, propagation_stopped = stopped,
                                        sentry = st \<rparr>
                                  | Inr h \<Rightarrow>
                                      \<lparr> outcome = Inr None, propagation_stopped = stopped,
                                        sentry = st \<lparr> hub := h \<rparr> \<rparr>)))"

section \<open>Properties of the EventFilter\<close>

lemma str_includes_iff_sublist: "str_includes url sub \<longleftrightarrow> sublist sub url"
  by (induction url) (auto simp: sublist_Cons_right)

text \<open>
  C1. When the deny list is non-empty and the url matches one of its entries (substring
  containment for a literal entry, pattern match for a pattern entry),
  \<open>shouldCaptureError\<close> returns false, whatever the allow list and the custom filter are,
  also a custom filter that would throw.
\<close>

theorem deny_match_rejects:
  assumes "denyUrls \<noteq> []"
    and "\<exists>d \<in> set denyUrls. (case d of Literal s \<Rightarrow> sublist s url | Pattern re \<Rightarrow> re url)"
  shows "shouldCaptureError event url allowUrls denyUrls customFilter = Inr False"
proof -
  from assms(2) obtain d where d: "d \<in> set denyUrls"
    and m: "case d of Literal s \<Rightarrow> sublist s url | Pattern re \<Rightarrow> re url"
    by blast
  from m have "matchesSubURL url d"
    by (cases d) (simp_all add: str_includes_iff_sublist)
  with d have "list_ex (matchesSubURL url) denyUrls"
    unfolding list_ex_iff by blast
  with assms(1) show ?thesis
    by (simp add: shouldCaptureError_def doesIncludeSubURLs_def)
qed

theorem deny_match_rejects_witness:
  "shouldCaptureError () ''https://cdn.example.com/vendor.js''
      [Literal ''cdn.example.com''] [Pattern (\<lambda>u. False), Literal ''vendor'']
      (Some (\<lambda>e u. Inl (Thrown ''filter''))) = Inr False"
proof -
  have "sublist ''vendor'' ''https://cdn.example.com/vendor.js''"
    by (simp add: str_includes_iff_sublist [symmetric])
  then show ?thesis
    by (intro deny_match_rejects) simp_all
qed

text \<open>
  C2. When no deny entry decides (the deny list is empty, or the url matches none of its
  entries) and the allow list is non-empty and the url matches none of the allow entries,
  \<open>shouldCaptureError\<close> returns true; the custom filter is not consulted, so the result
  is the same for every filter, also one that would throw or answer false.
\<close>

theorem allow_miss_accepts:
  assumes "\<forall>d \<in> set denyUrls. \<not> matchesSubURL url d"
    and "allowUrls \<noteq> []"
    and "\<forall>a \<in> set allowUrls. \<not> matchesSubURL url a"
  shows "shouldCaptureError event url allowUrls denyUrls customFilter = Inr True"
  using assms
  by (simp add: shouldCaptureError_def doesIncludeSubURLs_def list_ex_iff)

theorem allow_miss_accepts_witness:
  "shouldCaptureError () ''https://other.example.org/x.js''
      [Literal ''cdn.example.com'', Pattern (\<lambda>u. False)] []
      (Some (\<lambda>e u. Inr False)) = Inr True
   \<and> shouldCaptureError () ''https://other.example.org/x.js''
      [Literal ''cdn.example.com''] [Literal ''vendor'']
      (Some (\<lambda>e u. Inl (Thrown ''filter''))) = Inr True"
proof -
  have a: "\<forall>a \<in> set [Literal ''cdn.example.com'', Pattern (\<lambda>u. False)].
              \<not> matchesSubURL ''https://other.example.org/x.js'' a"
    by simp
  have b: "\<forall>a \<in> set [Literal ''cdn.example.com''].
              \<not> matchesSubURL ''https://other.example.org/x.js'' a"
    by simp
  have c: "\<forall>d \<in> set [Literal ''vendor'']. \<not> matchesSubURL ''https://other.example.org/x.js'' d"
    by simp
  have d: "\<forall>d \<in> set ([] :: SubURL list). \<not> matchesSubURL ''https://other.example.org/x.js'' d"
    by simp
  show ?thesis
    using allow_miss_accepts [OF d _ a, of "()" "Some (\<lambda>e u. Inr False)"]
          allow_miss_accepts [OF c _ b, of "()" "Some (\<lambda>e u. Inl (Thrown ''filter''))"]
    by simp
qed

section \<open>Properties of the native-error classifier\<close>

text \<open>The arguments handed to the parser: the raw trace text and the pop count.\<close>

lemma parseStackFrames_Some:
  "parseStackFrames rm sp (Some e) =
     (case sp (or_string (ex_stacktrace e) (or_string (ex_stack e) [])) (getPopSize rm (Some e)) of
        Inr fs \<Rightarrow> Inr fs | Inl err \<Rightarrow> Inr [])"
  by (simp add: parseStackFrames_def)

text \<open>
  C6. For every throwable: when the stack-parser primitive throws on the trace text and
  pop count it is called with, \<open>parseStackFrames\<close> returns the empty sequence and the
  Exception built by \<open>exceptionFromError\<close> has no stacktrace at all; when the parser
  returns a non-empty sequence, the Exception carries exactly these frames, a list of
  positive length.
\<close>

theorem parser_failure_and_frames:
  fixes e :: Throwable
  defines "raw \<equiv> or_string (ex_stacktrace e) (or_string (ex_stack e) [])"
  shows "(stackParser raw (getPopSize rm (Some e)) = Inl err \<longrightarrow>
            parseStackFrames rm stackParser (Some e) = Inr []
          \<and> (\<exists>exc. exceptionFromError rm stackParser (Some e) = Inr exc \<and> stacktrace exc = None))
       \<and> (stackParser raw (getPopSize rm (Some e)) = Inr fs \<and> fs \<noteq> [] \<longrightarrow>
            (\<exists>exc. exceptionFromError rm stackParser (Some e) = Inr exc
                 \<and> stacktrace exc = Some \<lparr> frames = Some fs \<rparr> \<and> length fs > 0))"
  unfolding raw_def
  by (simp add: exceptionFromError_def parseStackFrames_Some Let_def)

theorem parser_failure_and_frames_witness:
  "(\<exists>exc. exceptionFromError (\<lambda>m. False) (\<lambda>s n. Inl (Thrown ''parse''))
             (Some \<lparr> ex_name = Some ''TypeError'', ex_message = MsgString ''boom'',
                     ex_stack = Some ''at f (app.js:1:1)'', ex_stacktrace = None,
                     ex_framesToPop = None \<rparr>) = Inr exc \<and> stacktrace exc = None)
   \<and> (\<exists>exc. exceptionFromError (\<lambda>m. False)
             (\<lambda>s n. Inr [\<lparr> filename = Some s, func = Some ''f'', lineno = PNum 1,
                             colno = PNum n, in_app = Some True \<rparr>])
             (Some \<lparr> ex_name = Some ''TypeError'', ex_message = MsgString ''boom'',
                     ex_stack = Some ''at f (app.js:1:1)'', ex_stacktrace = None,
                     ex_framesToPop = Some 2 \<rparr>) = Inr exc
        \<and> stacktrace exc =
            Some \<lparr> frames = Some [\<lparr> filename = Some ''at f (app.js:1:1)'', func = Some ''f'',
                                     lineno = PNum 1, colno = PNum 2, in_app = Some True \<rparr>] \<rparr>)"
  using parser_failure_and_frames
          [of "\<lambda>s n. Inl (Thrown ''parse'')"
              "\<lparr> ex_name = Some ''TypeError'', ex_message = MsgString ''boom'',
                 ex_stack = Some ''at f (app.js:1:1)'', ex_stacktrace = None,
                 ex_framesToPop = None \<rparr>" "\<lambda>m. False" "Thrown ''parse''"]
        parser_failure_and_frames
          [of "\<lambda>s n. Inr [\<lparr> filename = Some s, func = Some ''f'', lineno = PNum 1,
                             colno = PNum n, in_app = Some True \<rparr>]"
              "\<lparr> ex_name = Some ''TypeError'', ex_message = MsgString ''boom'',
                 ex_stack = Some ''at f (app.js:1:1)'', ex_stacktrace = None,
                 ex_framesToPop = Some 2 \<rparr>" "\<lambda>m. False" _
              "[\<lparr> filename = Some ''at f (app.js:1:1)'', func = Some ''f'',
                  lineno = PNum 1, colno = PNum 2, in_app = Some True \<rparr>]"]
  by (simp add: getPopSize_def)

text \<open>
  C9. Every Exception that \<open>exceptionFromError\<close> returns is non-empty: it never has
  both an undefined type and the empty string as value, and whenever the throwable has no
  name and \<open>extractMessage\<close> yields the empty string, the value is the literal
  \<open>Unrecoverable error caught\<close>.
\<close>

theorem exception_never_empty:
  assumes "exceptionFromError rm stackParser ex = Inr exc"
  shows "\<not> (etype exc = None \<and> evalue exc = MsgString [])
       \<and> ((case ex of None \<Rightarrow> None | Some e \<Rightarrow> ex_name e) = None
            \<and> extractMessage ex = MsgString []
          \<longrightarrow> evalue exc = MsgString ''Unrecoverable error caught'')"
  using assms
  by (auto simp: exceptionFromError_def Let_def split: sum.splits if_splits)

theorem exception_never_empty_witness:
  "exceptionFromError (\<lambda>m. False) (\<lambda>s n. Inr [])
     (Some \<lparr> ex_name = None, ex_message = MsgObject (Some []), ex_stack = None,
             ex_stacktrace = None, ex_framesToPop = None \<rparr>)
   = Inr \<lparr> etype = None, evalue = MsgString ''Unrecoverable error caught'', stacktrace = None \<rparr>"
proof -
  have run: "exceptionFromError (\<lambda>m. False) (\<lambda>s n. Inr [])
     (Some \<lparr> ex_name = None, ex_message = MsgObject (Some []), ex_stack = None,
             ex_stacktrace = None, ex_framesToPop = None \<rparr>)
   = Inr \<lparr> etype = None, evalue = MsgString ''Unrecoverable error caught'', stacktrace = None \<rparr>"
    by (simp add: exceptionFromError_def parseStackFrames_Some extractMessage_def getPopSize_def)
  from exception_never_empty [OF run] show ?thesis
    using run by simp
qed

section \<open>Properties of the InitialFrameEnhancer\<close>

lemma digit_char_isDigit: "d < 10 \<Longrightarrow> isDigit (digit_char d)"
  unfolding isDigit_def digit_char_def by (rule nth_mem) simp

lemma show_nat_digit: "\<exists>d ds. show_nat n = d # ds \<and> isDigit d"
proof (induction n rule: show_nat.induct)
  case (1 n)
  show ?case
  proof (cases "n < 10")
    case True
    then show ?thesis
      by (subst show_nat.simps) (simp add: digit_char_isDigit)
  next
    case False
    with 1 obtain d ds where "show_nat (n div 10) = d # ds" "isDigit d"
      by blast
    with False show ?thesis
      by (subst show_nat.simps) simp
  qed
qed

lemma isDigit_plain:
  "isDigit c \<Longrightarrow> \<not> isWhiteSpace c \<and> c \<noteq> CHR ''-'' \<and> c \<noteq> CHR ''+''"
  by (auto simp: isDigit_def isWhiteSpace_def)

text \<open>\<open>parseInt\<close> of a number of the model is never \<open>NaN\<close>.\<close>

lemma parseInt10_PNum: "\<not> isNaN (parseInt10 (PNum n))"
proof -
  obtain d ds where s: "show_nat (nat \<bar>n\<bar>) = d # ds" and d: "isDigit d"
    using show_nat_digit by blast
  have m: "\<not> isWhiteSpace CHR ''-''"
    by (simp add: isWhiteSpace_def)
  show ?thesis
  proof (cases "n < 0")
    case True
    then have "ToString (PNum n) = CHR ''-'' # d # ds"
      using s by (simp add: show_int_def abs_if)
    with d m show ?thesis
      by (simp add: parseInt10_def isNaN_def Let_def isDigit_plain)
  next
    case False
    then have "ToString (PNum n) = d # ds"
      using s by (simp add: show_int_def abs_if)
    with d show ?thesis
      by (simp add: parseInt10_def isNaN_def Let_def isDigit_plain)
  qed
qed

text \<open>What one call leaves at \<open>event.exception.values[0].stacktrace.frames\<close>.\<close>

lemma eventFrames_enhance:
  "eventFrames (enhanceEventWithInitialFrame h event url line column) =
     Some (case eventFrames event of
             Some (f # fs) \<Rightarrow> f # fs
           | _ \<Rightarrow> [\<lparr> filename = Some (case url of PStr s \<Rightarrow> if length s > 0 then s else h | _ \<Rightarrow> h),
                      func = Some ''?'',
                      lineno = (if isNaN (parseInt10 line) then PUndefined else line),
                      colno = (if isNaN (parseInt10 column) then PUndefined else column),
                      in_app = Some True \<rparr>])"
  by (simp add: eventFrames_def enhanceEventWithInitialFrame_def Let_def
           split: option.splits list.splits)

lemma enhance_nonempty_unchanged:
  assumes "eventFrames event = Some fs" and "fs \<noteq> []"
  shows "enhanceEventWithInitialFrame h event url line column = event"
proof -
  from assms obtain e ev0 rest st where
    "exception event = Some e" "exc_values e = Some (ev0 # rest)"
    "stacktrace ev0 = Some st" "frames st = Some fs"
    by (auto simp: eventFrames_def split: option.splits list.splits)
  with assms(2) show ?thesis
    by (simp add: enhanceEventWithInitialFrame_def Let_def)
qed

text \<open>
  C4. When the frame list of the event's first exception is non-empty, the enhancer
  returns the event as it was; so a second call with the same arguments changes nothing,
  and an event that had no frame (an empty or absent list) holds exactly one injected
  frame after two calls.
\<close>

theorem enhance_twice_single_frame:
  "(eventFrames event = Some fs \<and> fs \<noteq> [] \<longrightarrow>
      enhanceEventWithInitialFrame h event url line column = event)
   \<and> enhanceEventWithInitialFrame h (enhanceEventWithInitialFrame h event url line column)
        url line column
     = enhanceEventWithInitialFrame h event url line column
   \<and> (eventFrames event = None \<or> eventFrames event = Some [] \<longrightarrow>
        (\<exists>f. eventFrames (enhanceEventWithInitialFrame h
                 (enhanceEventWithInitialFrame h event url line column) url line column) = Some [f]
            \<and> eventFrames (enhanceEventWithInitialFrame h event url line column) = Some [f]))"
proof -
  let ?once = "enhanceEventWithInitialFrame h event url line column"
  obtain gs where gs: "eventFrames ?once = Some gs" "gs \<noteq> []"
    by (auto simp: eventFrames_enhance split: option.splits list.splits)
  then have twice: "enhanceEventWithInitialFrame h ?once url line column = ?once"
    by (rule enhance_nonempty_unchanged)
  have "eventFrames event = None \<or> eventFrames event = Some [] \<Longrightarrow> \<exists>f. eventFrames ?once = Some [f]"
    by (auto simp: eventFrames_enhance)
  with twice show ?thesis
    by (auto intro: enhance_nonempty_unchanged)
qed

theorem enhance_twice_single_frame_witness:
  "enhanceEventWithInitialFrame ''http://h/''
     \<lparr> exception = Some \<lparr> exc_values = Some [\<lparr> etype = Some ''E'', evalue = MsgString ''m'',
          stacktrace = Some \<lparr> frames = Some [\<lparr> filename = Some ''a.js'', func = Some ''f'',
             lineno = PNum 1, colno = PNum 2, in_app = Some True \<rparr>] \<rparr> \<rparr>] \<rparr>,
        message = None, level = None \<rparr> (PStr ''b.js'') (PNum 7) (PNum 8)
   = \<lparr> exception = Some \<lparr> exc_values = Some [\<lparr> etype = Some ''E'', evalue = MsgString ''m'',
          stacktrace = Some \<lparr> frames = Some [\<lparr> filename = Some ''a.js'', func = Some ''f'',
             lineno = PNum 1, colno = PNum 2, in_app = Some True \<rparr>] \<rparr> \<rparr>] \<rparr>,
        message = None, level = None \<rparr>
   \<and> (\<exists>f. eventFrames (enhanceEventWithInitialFrame ''http://h/''
             (enhanceEventWithInitialFrame ''http://h/''
                \<lparr> exception = None, message = None, level = None \<rparr>
                (PStr ''b.js'') (PNum 7) (PNum 8)) (PStr ''b.js'') (PNum 7) (PNum 8)) = Some [f])"
proof -
  let ?fs = "[\<lparr> filename = Some ''a.js'', func = Some ''f'',
                lineno = PNum 1, colno = PNum 2, in_app = Some True \<rparr>]"
  let ?ev = "\<lparr> exception = Some \<lparr> exc_values = Some [\<lparr> etype = Some ''E'',
                evalue = MsgString ''m'', stacktrace = Some \<lparr> frames = Some ?fs \<rparr> \<rparr>] \<rparr>,
              message = None, level = None \<rparr>"
  let ?none = "\<lparr> exception = None, message = None, level = None \<rparr>"
  have full: "eventFrames ?ev = Some ?fs \<and> ?fs \<noteq> []"
    by (simp add: eventFrames_def)
  have absent: "eventFrames ?none = None \<or> eventFrames ?none = Some []"
    by (simp add: eventFrames_def)
  from full enhance_twice_single_frame [of ?ev ?fs "''http://h/''" "PStr ''b.js''" "PNum 7" "PNum 8"]
  have 1: "enhanceEventWithInitialFrame ''http://h/'' ?ev (PStr ''b.js'') (PNum 7) (PNum 8) = ?ev"
    by blast
  from absent enhance_twice_single_frame [of ?none _ "''http://h/''" "PStr ''b.js''" "PNum 7" "PNum 8"]
  have 2: "\<exists>f. eventFrames (enhanceEventWithInitialFrame ''http://h/''
             (enhanceEventWithInitialFrame ''http://h/'' ?none
                (PStr ''b.js'') (PNum 7) (PNum 8)) (PStr ''b.js'') (PNum 7) (PNum 8)) = Some [f]"
    by blast
  from 1 2 show ?thesis
    by (rule conjI)
qed

text \<open>
  C5 as stated does not hold: the enhancer tests \<open>parseInt(input, 10)\<close> for \<open>NaN\<close> and
  then stores the input itself. For the string inputs \<open>"10"\<close> and \<open>"5px"\<close>, which parse
  as 10 and 5, the injected frame carries the strings, not the numbers.
\<close>

theorem injected_frame_not_coerced:
  "eventFrames (enhanceEventWithInitialFrame ''http://h/''
       \<lparr> exception = None, message = None, level = None \<rparr>
       (PStr ''app.js'') (PStr ''10'') (PStr ''5px''))
     = Some [\<lparr> filename = Some ''app.js'', func = Some ''?'', lineno = PStr ''10'',
               colno = PStr ''5px'', in_app = Some True \<rparr>]
   \<and> parseInt10 (PStr ''10'') = Some 10 \<and> PStr ''10'' \<noteq> PNum 10
   \<and> parseInt10 (PStr ''5px'') = Some 5 \<and> PStr ''5px'' \<noteq> PNum 5"
proof -
  have absent: "eventFrames \<lparr> exception = None, message = None, level = None \<rparr> = None"
    by (simp add: eventFrames_def)
  have line: "parseInt10 (PStr ''10'') = Some 10"
    by (simp add: parseInt10_def isWhiteSpace_def isDigit_def digit_value_def)
  have column: "parseInt10 (PStr ''5px'') = Some 5"
    by (simp add: parseInt10_def isWhiteSpace_def isDigit_def digit_value_def)
  show ?thesis
    by (simp add: eventFrames_enhance absent line column isNaN_def)
qed

text \<open>
  C5, amended. For every event with an empty or absent frame list and every url, line and
  column: the injected frame has function \<open>?\<close> and \<open>in_app\<close> true; its \<open>lineno\<close> and
  \<open>colno\<close> are the line and column inputs themselves, not converted, whenever
  \<open>parseInt(input, 10)\<close> is not \<open>NaN\<close>, and undefined otherwise (so an integer input
  is kept as that number); its filename is the given url when that is a non-empty string,
  else the current document location.
\<close>

theorem injected_frame_fields:
  assumes "eventFrames event = None \<or> eventFrames event = Some []"
  shows "\<exists>f. eventFrames (enhanceEventWithInitialFrame h event url line column) = Some [f]
           \<and> func f = Some ''?'' \<and> in_app f = Some True
           \<and> lineno f = (if parseInt10 line = None then PUndefined else line)
           \<and> colno f = (if parseInt10 column = None then PUndefined else column)
           \<and> (\<forall>n. line = PNum n \<longrightarrow> lineno f = PNum n)
           \<and> (\<forall>n. column = PNum n \<longrightarrow> colno f = PNum n)
           \<and> filename f = Some (case url of PStr s \<Rightarrow> if s = [] then h else s | _ \<Rightarrow> h)"
proof -
  have num: "\<And>n. parseInt10 (PNum n) \<noteq> None"
    using parseInt10_PNum by (simp add: isNaN_def)
  from assms show ?thesis
    by (auto simp: eventFrames_enhance isNaN_def num split: primitive.splits)
qed

theorem injected_frame_fields_witness:
  "\<exists>f. eventFrames (enhanceEventWithInitialFrame ''http://h/''
            \<lparr> exception = Some \<lparr> exc_values = Some [] \<rparr>, message = None, level = None \<rparr>
            (PStr []) (PNum 10) (PStr ''col'')) = Some [f]
      \<and> func f = Some ''?'' \<and> in_app f = Some True
      \<and> lineno f = PNum 10 \<and> colno f = PUndefined \<and> filename f = Some ''http://h/''"
proof -
  let ?ev = "\<lparr> exception = Some \<lparr> exc_values = Some [] \<rparr>, message = None, level = None \<rparr>"
  have hyp: "eventFrames ?ev = None \<or> eventFrames ?ev = Some []"
    by (simp add: eventFrames_def)
  have col: "parseInt10 (PStr ''col'') = None"
    by (simp add: parseInt10_def isWhiteSpace_def isDigit_def)
  from injected_frame_fields [OF hyp, of "''http://h/''" "PStr []" "PNum 10" "PStr ''col''"]
  show ?thesis
    by (auto simp: col)
qed

section \<open>Properties of the legacy message parser\<close>

text \<open>
  C8. For the onerror input (message \<open>Uncaught TypeError: x is not a function\<close>, url
  \<open>app.js\<close>, line 10, column 5, no error object) the legacy parser produces an event
  whose only exception entry has type \<open>TypeError\<close>, value \<open>x is not a function\<close> and
  exactly one synthetic frame with filename \<open>app.js\<close>, lineno 10, colno 5, function
  \<open>?\<close> and \<open>in_app\<close> true, whatever the document location is.
\<close>

theorem onerror_typeerror_scenario:
  "eventFromIncompleteOnError h (MessageString ''Uncaught TypeError: x is not a function'')
       (PStr ''app.js'') (PNum 10) (PNum 5)
   = \<lparr> exception = Some \<lparr> exc_values =
         Some [\<lparr> etype = Some ''TypeError'', evalue = MsgString ''x is not a function'',
                 stacktrace = Some \<lparr> frames =
                   Some [\<lparr> filename = Some ''app.js'', func = Some ''?'', lineno = PNum 10,
                           colno = PNum 5, in_app = Some True \<rparr>] \<rparr> \<rparr>] \<rparr>,
       message = None, level = None \<rparr>"
  by code_simp

text \<open>
  C3. The message \<open>something broke\<close> names no error class. The pattern still matches
  it (its last group takes any text without a line terminator), the source then assigns
  \<open>name = groups[1]\<close>, which is undefined, and the default \<open>Error\<close> is lost: the
  exception entry has no type.
\<close>

theorem legacy_type_undefined:
  "eventFromIncompleteOnError h (MessageString ''something broke'')
       (PStr ''app.js'') (PNum 10) (PNum 5)
   = \<lparr> exception = Some \<lparr> exc_values =
         Some [\<lparr> etype = None, evalue = MsgString ''something broke'',
                 stacktrace = Some \<lparr> frames =
                   Some [\<lparr> filename = Some ''app.js'', func = Some ''?'', lineno = PNum 10,
                           colno = PNum 5, in_app = Some True \<rparr>] \<rparr> \<rparr>] \<rparr>,
       message = None, level = None \<rparr>"
  by code_simp

text \<open>
  The default survives only where the pattern does not match at all, which takes a line
  terminator in the message; nothing is stripped then.
\<close>

lemma legacy_type_default_on_mismatch:
  "eventFromIncompleteOnError h (MessageString [CHR ''U'', CHR ''h'', CHR 0x0A, CHR ''o''])
       (PStr ''app.js'') (PNum 10) (PNum 5)
   = \<lparr> exception = Some \<lparr> exc_values =
         Some [\<lparr> etype = Some ''Error'',
                 evalue = MsgString [CHR ''U'', CHR ''h'', CHR 0x0A, CHR ''o''],
                 stacktrace = Some \<lparr> frames =
                   Some [\<lparr> filename = Some ''app.js'', func = Some ''?'', lineno = PNum 10,
                           colno = PNum 5, in_app = Some True \<rparr>] \<rparr> \<rparr>] \<rparr>,
       message = None, level = None \<rparr>"
  by code_simp

text \<open>
  The slip is systematic. A greedy star over the dot takes a whole line, so the last
  group matches whatever is left; and a message whose first character can start neither
  the \<open>Uncaught\<close> prefix nor a class name leaves group 1 unset.
\<close>

lemma star_iter_line_end:
  assumes step: "\<And>k' q x xs c. m k' (q, x # xs, c)
                    = (if isLineTerminator x then None else k' (Suc q, xs, c))"
    and stop: "\<And>k' q c. m k' (q, [], c) = None"
    and "\<forall>x \<in> set s. \<not> isLineTerminator x" and "length s \<le> n"
    and "k (p + length s, [], caps) = Some r"
  shows "star_iter m k n (p, s, caps) = Some r"
  using assms(3-)
proof (induction s arbitrary: n p)
  case Nil
  then show ?case by (cases n) (simp_all add: stop)
next
  case (Cons x xs)
  then obtain n' where n: "n = Suc n'" and n': "length xs \<le> n'"
    by (cases n) auto
  from Cons.prems have "k (Suc p + length xs, [], caps) = Some r"
    by simp
  with Cons.IH [of n' "Suc p"] Cons.prems(1) n'
  have "star_iter m k n' (Suc p, xs, caps) = Some r"
    by simp
  with Cons.prems(1) show ?case
    by (simp add: n step)
qed

lemma group2_line:
  assumes "\<forall>x \<in> set s. \<not> isLineTerminator x"
  shows "rmatch ic (Seq (Group 2 (Star Dot)) Eol) (\<lambda>(p', s', c). Some c) (p, s, caps)
           = Some (caps(2 \<mapsto> s))"
proof -
  have "star_iter (rmatch ic Dot)
          (\<lambda>(p', s', caps'). rmatch ic Eol (\<lambda>(p', s', c). Some c)
                                (p', s', caps'(2 \<mapsto> take (p' - p) s)))
          (length s) (p, s, caps) = Some (caps(2 \<mapsto> s))"
    by (rule star_iter_line_end [OF _ _ assms]) simp_all
  then show ?thesis
    by simp
qed

lemma legacy_match_unclassified:
  assumes "\<forall>x \<in> set s. \<not> isLineTerminator x"
    and "s = [] \<or> canonicalize True (hd s) \<notin> set ''UEIRST''"
  shows "string_match True ERROR_TYPES_RE s = Some [2 \<mapsto> s]"
proof (cases s)
  case Nil
  then show ?thesis
    by (simp add: string_match_def ERROR_TYPES_RE_def opt_def lit_def)
next
  case (Cons x xs)
  with assms(2) have x: "canonicalize True x \<noteq> CHR ''U''" "canonicalize True x \<noteq> CHR ''E''"
    "canonicalize True x \<noteq> CHR ''I''" "canonicalize True x \<noteq> CHR ''R''"
    "canonicalize True x \<noteq> CHR ''S''" "canonicalize True x \<noteq> CHR ''T''"
    by simp_all
  have c: "canonicalize True CHR ''U'' = CHR ''U''" "canonicalize True CHR ''u'' = CHR ''U''"
    "canonicalize True CHR ''E'' = CHR ''E''" "canonicalize True CHR ''I'' = CHR ''I''"
    "canonicalize True CHR ''R'' = CHR ''R''" "canonicalize True CHR ''S'' = CHR ''S''"
    "canonicalize True CHR ''T'' = CHR ''T''"
    by code_simp+
  from assms(1) have tail: "rmatch True (Seq (Group 2 (Star Dot)) Eol) (\<lambda>(p', s', c). Some c)
       (0, x # xs, Map.empty) = Some [2 \<mapsto> x # xs]"
    unfolding Cons by (rule group2_line)
  define rest where "rest = Seq (Group 2 (Star Dot)) Eol"
  have re: "ERROR_TYPES_RE =
     Seq Bol
    (Seq (opt (Seq (OneOf ''Uu'') (Seq (lit ''ncaught '') (opt (lit ''exception: '')))))
    (Seq (opt (Seq (Group 1
                      (Seq (Alt (lit ''Eval'') (Alt (lit ''Internal'') (Alt (lit ''Range'')
                           (Alt (lit ''Reference'') (Alt (lit ''Syntax'') (Alt (lit ''Type'')
                           (Alt (lit ''URI'') Eps)))))))
                           (lit ''Error'')))
                   (lit '': '')))
     rest))"
    by (simp add: ERROR_TYPES_RE_def rest_def)
  have "rmatch True ERROR_TYPES_RE (\<lambda>(p', s', c). Some c) (0, x # xs, Map.empty)
          = rmatch True rest (\<lambda>(p', s', c). Some c) (0, x # xs, Map.empty)"
    unfolding re opt_def lit_def
    by (simp add: x c)
  with tail show ?thesis
    by (simp add: string_match_def Cons rest_def)
qed

lemma legacy_type_undefined_unclassified:
  assumes "\<forall>x \<in> set s. \<not> isLineTerminator x"
    and "s = [] \<or> canonicalize True (hd s) \<notin> set ''UEIRST''"
  shows "exception (eventFromIncompleteOnError h (MessageString s) url line column)
           = Some \<lparr> exc_values = Some [\<lparr> etype = None, evalue = MsgString s,
                stacktrace = Some \<lparr> frames = Some
                  [\<lparr> filename = Some (case url of PStr u \<Rightarrow> if length u > 0 then u else h | _ \<Rightarrow> h),
                     func = Some ''?'',
                     lineno = (if isNaN (parseInt10 line) then PUndefined else line),
                     colno = (if isNaN (parseInt10 column) then PUndefined else column),
                     in_app = Some True \<rparr>] \<rparr> \<rparr>] \<rparr>"
  by (simp add: eventFromIncompleteOnError_def legacy_match_unclassified [OF assms]
        enhanceEventWithInitialFrame_def Let_def)

section \<open>Properties of the CaptureDispatcher\<close>

lemma primitive_property_undefined:
  "get_property (Primitive p) key = Inl TypeError
   \<or> get_property (Primitive p) key = Inr (Prim PUndefined)"
proof (cases p)
  case (Common c)
  then show ?thesis by (cases c) simp_all
next
  case (Rare r)
  then show ?thesis by simp
qed

lemma primitive_not_own_request: "\<not> isOwnRequest (Primitive p)"
  using primitive_property_undefined [of p "''__sentry_own_request__''"]
  by (auto simp: isOwnRequest_def)

lemma primitive_event_no_url:
  "getEventFilterUrl
     ((eventFromRejectionWithPrimitive nts p) \<lparr> level := Some ''error'' \<rparr>) = None"
  by (simp add: getEventFilterUrl_def getLastValidUrl_def eventFrames_def
        eventFromRejectionWithPrimitive_def)

text \<open>
  C7. For every rejection signal whose reason, under \<open>reason\<close> or else under
  \<open>detail.reason\<close>, is a primitive (of any kind: undefined, null, a boolean, a number,
  a string, a symbol or a bigint): the handler takes that primitive as the error, does not
  short-circuit on the own-request marker, and produces the event whose only exception
  entry has type \<open>UnhandledRejection\<close>, value
  \<open>Non-Error promise rejection captured with value: \<close> followed by the stringified reason,
  and no stacktrace; the event carries level \<open>error\<close> and nothing else.
\<close>

theorem primitive_rejection_event:
  assumes "map_of ps ''reason'' = Some (Primitive p)
         \<or> (map_of ps ''reason'' = None
            \<and> (\<exists>t' cs' ps'. map_of ps ''detail'' = Some (Obj t' cs' ps')
                  \<and> map_of ps' ''reason'' = Some (Primitive p)))"
  shows "rejectionReason (Obj t cs ps) = Primitive p
       \<and> \<not> isOwnRequest (rejectionReason (Obj t cs ps))
       \<and> rejectionEvent numberToString classify h (rejectionReason (Obj t cs ps))
           = Inr \<lparr> exception = Some \<lparr> exc_values =
                     Some [\<lparr> etype = Some ''UnhandledRejection'',
                             evalue = MsgString
                               (''Non-Error promise rejection captured with value: ''
                                  @ StringOf numberToString p),
                             stacktrace = None \<rparr>] \<rparr>,
                   message = None, level = Some ''error'' \<rparr>"
proof -
  from assms have r: "rejectionReason (Obj t cs ps) = Primitive p"
    by (auto simp: rejectionReason_def)
  show ?thesis
    unfolding r
    by (simp add: primitive_not_own_request rejectionEvent_def eventFromRejectionWithPrimitive_def)
qed

theorem primitive_rejection_event_witness:
  "rejectionEvent (\<lambda>m e. ''1e+21'') (\<lambda>h v. Inl TypeError) None
       (rejectionReason (Obj TypeofObject [''PromiseRejectionEvent'', ''Event'', ''Object'']
          [(''reason'', Prim (PStr ''oops''))]))
     = Inr \<lparr> exception = Some \<lparr> exc_values =
               Some [\<lparr> etype = Some ''UnhandledRejection'',
                       evalue = MsgString ''Non-Error promise rejection captured with value: oops'',
                       stacktrace = None \<rparr>] \<rparr>,
             message = None, level = Some ''error'' \<rparr>
   \<and> rejectionEvent (\<lambda>m e. ''1e+21'') (\<lambda>h v. Inl TypeError) None
       (rejectionReason (Obj TypeofObject [''CustomEvent'', ''Event'', ''Object'']
          [(''detail'', Obj TypeofObject [''Object''] [(''reason'', Prim (PNum (- 42)))])]))
     = Inr \<lparr> exception = Some \<lparr> exc_values =
               Some [\<lparr> etype = Some ''UnhandledRejection'',
                       evalue = MsgString ''Non-Error promise rejection captured with value: -42'',
                       stacktrace = None \<rparr>] \<rparr>,
             message = None, level = Some ''error'' \<rparr>
   \<and> rejectionEvent (\<lambda>m e. ''1e+21'') (\<lambda>h v. Inl TypeError) None
       (rejectionReason (Obj TypeofObject [''PromiseRejectionEvent'', ''Event'', ''Object'']
          [(''reason'', Prim (PNum 1000000000000000000000))]))
     = Inr \<lparr> exception = Some \<lparr> exc_values =
               Some [\<lparr> etype = Some ''UnhandledRejection'',
                       evalue = MsgString ''Non-Error promise rejection captured with value: 1e+21'',
                       stacktrace = None \<rparr>] \<rparr>,
             message = None, level = Some ''error'' \<rparr>
   \<and> rejectionEvent (\<lambda>m e. ''1e+21'') (\<lambda>h v. Inl TypeError) None
       (rejectionReason (Obj TypeofObject [''PromiseRejectionEvent'', ''Event'', ''Object'']
          [(''reason'', Primitive (Rare (PSymbol (Some ''tag''))))]))
     = Inr \<lparr> exception = Some \<lparr> exc_values =
               Some [\<lparr> etype = Some ''UnhandledRejection'',
                       evalue = MsgString
                         ''Non-Error promise rejection captured with value: Symbol(tag)'',
                       stacktrace = None \<rparr>] \<rparr>,
             message = None, level = Some ''error'' \<rparr>"
proof -
  let ?nts = "\<lambda>(m::int) (e::int). ''1e+21''"
  let ?cl = "\<lambda>(h::hub_call list option) (v::jsval). (Inl TypeError :: error + Event)"
  have a: "map_of [(''reason'', v)] ''reason'' = Some (Primitive p)
         \<or> (map_of [(''reason'', v)] ''reason'' = None
            \<and> (\<exists>t' cs' ps'. map_of [(''reason'', v)] ''detail'' = Some (Obj t' cs' ps')
                  \<and> map_of ps' ''reason'' = Some (Primitive p)))"
    if "v = Primitive p" for v p
    using that by simp
  have b: "map_of [(''detail'', Obj TypeofObject [''Object''] [(''reason'', Prim (PNum (- 42)))])]
              ''reason'' = Some (Prim (PNum (- 42)))
         \<or> (map_of [(''detail'', Obj TypeofObject [''Object''] [(''reason'', Prim (PNum (- 42)))])]
              ''reason'' = None
            \<and> (\<exists>t' cs' ps'.
                  map_of [(''detail'', Obj TypeofObject [''Object''] [(''reason'', Prim (PNum (- 42)))])]
                    ''detail'' = Some (Obj t' cs' ps')
                  \<and> map_of ps' ''reason'' = Some (Prim (PNum (- 42)))))"
    by simp
  note 1 = primitive_rejection_event [where p = "Common (PStr ''oops'')"
      and ps = "[(''reason'', Prim (PStr ''oops''))]" and numberToString = ?nts
      and classify = ?cl and h = None and t = TypeofObject
      and cs = "[''PromiseRejectionEvent'', ''Event'', ''Object'']",
      OF a [OF refl], THEN conjunct2, THEN conjunct2]
  note 2 = primitive_rejection_event [where p = "Common (PNum (- 42))"
      and ps = "[(''detail'', Obj TypeofObject [''Object''] [(''reason'', Prim (PNum (- 42)))])]"
      and numberToString = ?nts and classify = ?cl and h = None and t = TypeofObject
      and cs = "[''CustomEvent'', ''Event'', ''Object'']",
      OF b, THEN conjunct2, THEN conjunct2]
  note 3 = primitive_rejection_event [where p = "Common (PNum 1000000000000000000000)"
      and ps = "[(''reason'', Prim (PNum 1000000000000000000000))]" and numberToString = ?nts
      and classify = ?cl and h = None and t = TypeofObject
      and cs = "[''PromiseRejectionEvent'', ''Event'', ''Object'']",
      OF a [OF refl], THEN conjunct2, THEN conjunct2]
  note 4 = primitive_rejection_event [where p = "Rare (PSymbol (Some ''tag''))"
      and ps = "[(''reason'', Primitive (Rare (PSymbol (Some ''tag''))))]"
      and numberToString = ?nts and classify = ?cl and h = None and t = TypeofObject
      and cs = "[''PromiseRejectionEvent'', ''Event'', ''Object'']",
      OF a [OF refl], THEN conjunct2, THEN conjunct2]
  have s: "StringOf ?nts (Common (PStr ''oops'')) = ''oops''"
    "StringOf ?nts (Common (PNum (- 42))) = ''-42''"
    "StringOf ?nts (Common (PNum 1000000000000000000000)) = ''1e+21''"
    "StringOf ?nts (Rare (PSymbol (Some ''tag''))) = ''Symbol(tag)''"
    by (simp_all add: isSafeInteger_def show_int_def show_nat.simps digit_char_def)
  from 1 [unfolded s] 2 [unfolded s] 3 [unfolded s] 4 [unfolded s] show ?thesis
    by simp
qed

text \<open>Such an event has no frame, hence no filter URL: the handler forwards nothing.\<close>

lemma primitive_rejection_not_forwarded:
  assumes "rejectionReason e = Primitive p"
  shows "handleUnhandledRejection nts classify addMech st e
           = \<lparr> outcome = Inr None, propagation_stopped = False, sentry = st \<rparr>"
  using assms
  by (simp add: handleUnhandledRejection_def primitive_not_own_request rejectionEvent_def
        primitive_event_no_url)

text \<open>When \<open>isNetworkError\<close> answers true.\<close>

lemma isNetworkError_true_iff:
  "isNetworkError error = Inr True \<longleftrightarrow>
     instanceof error ''AxiosError''
   \<or> (\<exists>t cs ps. error = Obj t cs ps \<and> map_of ps ''name'' = Some (Prim (PStr ''NetworkError'')))"
  by (cases error) (auto simp: isNetworkError_def split: option.splits)

text \<open>
  C10. With the force flag unset (absent or false), an error that is an instance of
  AxiosError or carries the name \<open>NetworkError\<close> is dropped: \<open>captureExecption\<close> leaves
  the hub untouched. Whenever a call does change the state, the force flag was set or
  \<open>isNetworkError\<close> answered false, and the change is exactly one \<open>captureException\<close>
  call on the hub with the error and the hint.
\<close>

theorem network_errors_dropped:
  "(force \<noteq> Some True
      \<and> (instanceof error ''AxiosError''
         \<or> (\<exists>t cs ps. error = Obj t cs ps
               \<and> map_of ps ''name'' = Some (Prim (PStr ''NetworkError''))))
      \<longrightarrow> captureExecption st error hint force = Inr st)
   \<and> (captureExecption st error hint force = Inr st' \<and> st' \<noteq> st
      \<longrightarrow> (force = Some True \<or> isNetworkError error = Inr False)
          \<and> (\<exists>calls. hub st = Some calls
                \<and> st' = st \<lparr> hub := Some (calls @ [CaptureException error hint]) \<rparr>))"
proof -
  have drop: "captureExecption st error hint force = Inr st"
    if "force \<noteq> Some True" and "isNetworkError error = Inr True"
    using that by (simp add: captureExecption_def split: option.splits)
  have fwd: "(force = Some True \<or> isNetworkError error = Inr False)
          \<and> (\<exists>calls. hub st = Some calls
                \<and> st' = st \<lparr> hub := Some (calls @ [CaptureException error hint]) \<rparr>)"
    if "captureExecption st error hint force = Inr st'" and "st' \<noteq> st"
    using that
    by (auto simp: captureExecption_def split: option.splits if_splits sum.splits)
  from drop fwd show ?thesis
    unfolding isNetworkError_true_iff by blast
qed

theorem network_errors_dropped_witness:
  "captureExecption \<lparr> hub = Some [], appJSFile = None, customEventFilter = None \<rparr>
      (Obj TypeofObject [''Error'', ''Object'']
         [(''name'', Prim (PStr ''NetworkError'')), (''message'', Prim (PStr ''offline''))])
      None (Some False)
     = Inr \<lparr> hub = Some [], appJSFile = None, customEventFilter = None \<rparr>
   \<and> captureExecption \<lparr> hub = Some [], appJSFile = None, customEventFilter = None \<rparr>
      (Obj TypeofObject [''AxiosError'', ''Error'', ''Object''] [(''name'', Prim (PStr ''AxiosError''))])
      None None
     = Inr \<lparr> hub = Some [], appJSFile = None, customEventFilter = None \<rparr>
   \<and> (captureExecption \<lparr> hub = Some [], appJSFile = None, customEventFilter = None \<rparr>
         (Obj TypeofObject [''AxiosError'', ''Error'', ''Object''] []) None (Some True)
        = Inr \<lparr> hub = Some [CaptureException
                               (Obj TypeofObject [''AxiosError'', ''Error'', ''Object''] []) None],
                 appJSFile = None, customEventFilter = None \<rparr>
      \<and> (Some True = Some True
          \<or> isNetworkError (Obj TypeofObject [''AxiosError'', ''Error'', ''Object''] []) = Inr False))"
proof -
  let ?st = "\<lparr> hub = Some [], appJSFile = None, customEventFilter = None \<rparr>"
  let ?net = "Obj TypeofObject [''Error'', ''Object'']
         [(''name'', Prim (PStr ''NetworkError'')), (''message'', Prim (PStr ''offline''))]"
  let ?ax = "Obj TypeofObject [''AxiosError'', ''Error'', ''Object''] [(''name'', Prim (PStr ''AxiosError''))]"
  let ?ax' = "Obj TypeofObject [''AxiosError'', ''Error'', ''Object''] []"
  let ?st' = "\<lparr> hub = Some [CaptureException ?ax' None], appJSFile = None,
                 customEventFilter = None \<rparr>"
  have 1: "captureExecption ?st ?net None (Some False) = Inr ?st"
    using network_errors_dropped [of "Some False" ?net ?st None] by simp
  have 2: "captureExecption ?st ?ax None None = Inr ?st"
    using network_errors_dropped [of None ?ax ?st None] by simp
  have run: "captureExecption ?st ?ax' None (Some True) = Inr ?st'"
    by (simp add: captureExecption_def)
  have 3: "Some True = Some True \<or> isNetworkError ?ax' = Inr False"
    using network_errors_dropped [of "Some True" ?ax' ?st None ?st'] run by simp
  from 1 2 run 3 show ?thesis
    by blast
qed

end
